theory Spec2Isabelle
  imports Main "HOL-Library.Word"
begin

section \<open>JavaScript values used by \<open>src/index.ts\<close>\<close>

text \<open>
  Strings are lists of characters. A value of type \<open>string | undefined\<close> (an optional
  request field, an unset environment variable, an omitted field of a backend response)
  is a \<open>string option\<close>, \<open>None\<close> standing for the missing value.
\<close>

type_synonym bytes = "8 word list"

definition backslash :: char where
  "backslash = CHR 0x5C"

definition quote :: char where
  "quote = CHR 0x27"

definition newline :: char where
  "newline = CHR 0x0A"

text \<open>Truthiness of an optional string: \<open>undefined\<close> and the empty string are falsy.\<close>

definition truthy :: "string option \<Rightarrow> bool" where
  "truthy v = (case v of None \<Rightarrow> False | Some s \<Rightarrow> s \<noteq> [])"

text \<open>\<open>v || d\<close> for an optional string \<open>v\<close> and a string \<open>d\<close>.\<close>

definition or_else :: "string option \<Rightarrow> string \<Rightarrow> string" where
  "or_else v d = (case v of None \<Rightarrow> d | Some s \<Rightarrow> if s = [] then d else s)"

text \<open>\<open>s.startsWith(p)\<close>.\<close>

fun startsWith :: "string \<Rightarrow> string \<Rightarrow> bool" where
  "startsWith s [] = True"
| "startsWith [] (p # ps) = False"
| "startsWith (c # cs) (p # ps) = (c = p \<and> startsWith cs ps)"

text \<open>\<open>s.includes(p)\<close>.\<close>

fun str_includes :: "string \<Rightarrow> string \<Rightarrow> bool" where
  "str_includes [] p = (p = [])"
| "str_includes (c # cs) p = (startsWith (c # cs) p \<or> str_includes cs p)"

text \<open>
  \<open>s.replace(pat, rep)\<close> with a string pattern: only the first occurrence of \<open>pat\<close> is
  replaced (the replacement strings of the source contain no \<open>$\<close> pattern).
\<close>

fun replace_first :: "string \<Rightarrow> string \<Rightarrow> string \<Rightarrow> string" where
  "replace_first pat rep [] = (if pat = [] then rep else [])"
| "replace_first pat rep (c # cs) =
     (if startsWith (c # cs) pat then rep @ drop (length pat) (c # cs)
      else c # replace_first pat rep cs)"

text \<open>
  \<open>s.replace(/c/g, rep)\<close> for a regular expression that matches the single character
  \<open>c\<close>, with the global flag: every occurrence is replaced, left to right.
\<close>

primrec replace_all_char :: "char \<Rightarrow> string \<Rightarrow> string \<Rightarrow> string" where
  "replace_all_char p rep [] = []"
| "replace_all_char p rep (c # cs) =
     (if c = p then rep @ replace_all_char p rep cs else c # replace_all_char p rep cs)"

text \<open>\<open>xs.join(sep)\<close> on an array of strings.\<close>

fun join :: "string \<Rightarrow> string list \<Rightarrow> string" where
  "join sep [] = []"
| "join sep [x] = x"
| "join sep (x # y # ys) = x @ sep @ join sep (y # ys)"

text \<open>The decimal digits of a natural number, as a template literal prints it.\<close>

definition digit :: "nat \<Rightarrow> char" where
  "digit d = ''0123456789'' ! d"

fun show_nat :: "nat \<Rightarrow> string" where
  "show_nat n = (if n < 10 then [digit n] else show_nat (n div 10) @ [digit (n mod 10)])"

declare show_nat.simps [simp del]

section \<open>Outcomes of a handler\<close>

text \<open>
  A thrown value is either an \<open>Error\<close> constructed by the server's own code or whatever
  a rejected call of the remote directory carries. An asynchronous function returns,
  throws (its promise rejects), or ends the process with \<open>process.exit\<close>.
\<close>

datatype js_error = Error string | RemoteError string

datatype 'a outcome = Returned 'a | Thrown js_error | Exit nat

section \<open>The search query\<close>

text \<open>Lines 173 and 174 of \<open>src/index.ts\<close>: two global replacements, then the template.\<close>

definition escapedQuery :: "string \<Rightarrow> string" where
  "escapedQuery userQuery =
     replace_all_char quote [backslash, quote]
       (replace_all_char backslash [backslash, backslash] userQuery)"

definition formattedQuery :: "string \<Rightarrow> string" where
  "formattedQuery userQuery = ''fullText contains '' @ [quote] @ escapedQuery userQuery @ [quote]"

text \<open>
  The escaping in the words of the specification: each backslash is doubled, each single
  quote is preceded by a backslash, every other character is kept.
\<close>

definition escape_char :: "char \<Rightarrow> string" where
  "escape_char c =
     (if c = backslash then [backslash, backslash]
      else if c = quote then [backslash, quote]
      else [c])"

text \<open>
  The body of a quoted literal of the remote query language is read left to right; a
  backslash takes the next character with it. The body is closed when it holds a quote
  that no backslash precedes, and it swallows the closing quote of the template when it
  ends in a pending backslash.
\<close>

fun literal_body :: "string \<Rightarrow> bool" where
  "literal_body [] = True"
| "literal_body [c] = (c \<noteq> backslash \<and> c \<noteq> quote)"
| "literal_body (c # d # ds) =
     (if c = backslash then literal_body ds else c \<noteq> quote \<and> literal_body (d # ds))"

text \<open>Reading the body back: what the remote side takes the literal to denote.\<close>

fun unescape :: "string \<Rightarrow> string" where
  "unescape [] = []"
| "unescape [c] = [c]"
| "unescape (c # d # ds) = (if c = backslash then d # unescape ds else c # unescape (d # ds))"

section \<open>The remote directory\<close>

text \<open>
  The server reaches the remote file store through four calls of the client library:
  \<open>drive.files.list\<close>, \<open>drive.files.get\<close> for the metadata field \<open>mimeType\<close>,
  \<open>drive.files.get\<close> with \<open>alt: "media"\<close>, and \<open>drive.files.export\<close>. The store is
  not part of the program: it is a parameter, each call answering with a response or
  rejecting with a value that the awaiting handler throws on.
\<close>

record list_params =
  lp_pageSize :: nat
  lp_fields :: string
  lp_pageToken :: "string option"
  lp_q :: "string option"

record drive_file =
  f_id :: "string option"
  f_name :: "string option"
  f_mimeType :: "string option"

record list_response =
  lr_files :: "drive_file list option"
  lr_nextPageToken :: "string option"

record drive =
  files_list :: "list_params \<Rightarrow> js_error + list_response"
  files_get_mimeType :: "string \<Rightarrow> js_error + string option"
  files_get_media :: "string \<Rightarrow> js_error + bytes"
  files_export :: "string \<Rightarrow> string \<Rightarrow> js_error + string"

text \<open>The calls a handler makes, in the order it makes them.\<close>

datatype drive_call =
    FilesList list_params
  | FilesGetMimeType string
  | FilesGetMedia string
  | FilesExport string string

text \<open>
  \<open>Buffer.from(data).toString("utf-8")\<close> and \<open>Buffer.from(data).toString("base64")\<close>
  belong to the runtime; the handler takes them as they are.
\<close>

record buffer =
  toString_utf8 :: "bytes \<Rightarrow> string"
  toString_base64 :: "bytes \<Rightarrow> string"

section \<open>List resources\<close>

record resource =
  r_uri :: string
  r_mimeType :: string
  r_name :: string

record list_result =
  resources :: "resource list"
  nextCursor :: "string option"

text \<open>A template literal prints a missing value as \<open>undefined\<close>.\<close>

definition template_string :: "string option \<Rightarrow> string" where
  "template_string v = (case v of None \<Rightarrow> ''undefined'' | Some s \<Rightarrow> s)"

definition listResources_params :: "string option \<Rightarrow> list_params" where
  "listResources_params cursor =
     (let params = \<lparr>lp_pageSize = 10,
                     lp_fields = ''nextPageToken, files(id, name, mimeType)'',
                     lp_pageToken = None, lp_q = None\<rparr>
      in if truthy cursor then params\<lparr>lp_pageToken := cursor\<rparr> else params)"

definition resource_of_file :: "drive_file \<Rightarrow> resource" where
  "resource_of_file file =
     \<lparr>r_uri = ''gdrive:///'' @ template_string (f_id file),
      r_mimeType = or_else (f_mimeType file) ''application/octet-stream'',
      r_name = or_else (f_name file) ''Unknown''\<rparr>"

definition listResources :: "drive \<Rightarrow> string option \<Rightarrow> drive_call list \<times> list_result outcome" where
  "listResources d cursor =
     (let params = listResources_params cursor
      in case files_list d params of
           Inl e \<Rightarrow> ([FilesList params], Thrown e)
         | Inr res \<Rightarrow>
             (let files = (case lr_files res of None \<Rightarrow> [] | Some fs \<Rightarrow> fs)
              in ([FilesList params],
                  Returned \<lparr>resources = map resource_of_file files,
                            nextCursor = lr_nextPageToken res\<rparr>)))"

section \<open>Read resource\<close>

text \<open>
  An element of \<open>contents\<close>: the object literal always has \<open>uri\<close> and \<open>mimeType\<close>; the
  keys \<open>text\<close> and \<open>blob\<close> are present or not.
\<close>

record resource_content =
  rc_uri :: string
  rc_mimeType :: string
  rc_text :: "string option"
  rc_blob :: "string option"

record read_result =
  contents :: "resource_content list"

definition native_family :: string where
  "native_family = ''application/vnd.google-apps''"

text \<open>The switch of lines 76 to 91.\<close>

definition exportMimeType :: "string option \<Rightarrow> string" where
  "exportMimeType mimeType =
     (if mimeType = Some ''application/vnd.google-apps.document'' then ''text/markdown''
      else if mimeType = Some ''application/vnd.google-apps.spreadsheet'' then ''text/csv''
      else if mimeType = Some ''application/vnd.google-apps.presentation'' then ''text/plain''
      else if mimeType = Some ''application/vnd.google-apps.drawing'' then ''image/png''
      else ''text/plain'')"

text \<open>\<open>file.data.mimeType?.startsWith("application/vnd.google-apps")\<close>.\<close>

definition is_native :: "string option \<Rightarrow> bool" where
  "is_native m = (case m of None \<Rightarrow> False | Some s \<Rightarrow> startsWith s native_family)"

definition fileId_of_uri :: "string \<Rightarrow> string" where
  "fileId_of_uri uri = replace_first ''gdrive:///'' [] uri"

definition readResource ::
  "drive \<Rightarrow> buffer \<Rightarrow> string \<Rightarrow> drive_call list \<times> read_result outcome" where
  "readResource d b uri =
     (let fileId = fileId_of_uri uri
      in case files_get_mimeType d fileId of
           Inl e \<Rightarrow> ([FilesGetMimeType fileId], Thrown e)
         | Inr file_mimeType \<Rightarrow>
             if is_native file_mimeType then
               (let exportType = exportMimeType file_mimeType;
                    calls = [FilesGetMimeType fileId, FilesExport fileId exportType]
                in case files_export d fileId exportType of
                     Inl e \<Rightarrow> (calls, Thrown e)
                   | Inr data \<Rightarrow>
                       (calls,
                        Returned \<lparr>contents =
                          [\<lparr>rc_uri = uri, rc_mimeType = exportType,
                            rc_text = Some data, rc_blob = None\<rparr>]\<rparr>))
             else
               (let calls = [FilesGetMimeType fileId, FilesGetMedia fileId]
                in case files_get_media d fileId of
                     Inl e \<Rightarrow> (calls, Thrown e)
                   | Inr data \<Rightarrow>
                       (let mimeType = or_else file_mimeType ''application/octet-stream''
                        in if startsWith mimeType ''text/'' \<or> mimeType = ''application/json''
                           then (calls,
                                 Returned \<lparr>contents =
                                   [\<lparr>rc_uri = uri, rc_mimeType = mimeType,
                                     rc_text = Some (toString_utf8 b data),
                                     rc_blob = None\<rparr>]\<rparr>)
                           else (calls,
                                 Returned \<lparr>contents =
                                   [\<lparr>rc_uri = uri, rc_mimeType = mimeType,
                                     rc_text = None,
                                     rc_blob = Some (toString_base64 b data)\<rparr>]\<rparr>))))"

section \<open>Call tool\<close>

text \<open>
  Of a call-tool request the handler reads the tool name and
  \<open>request.params.arguments?.query\<close>, which is missing when the arguments object is
  missing or has no such field. The source takes the value \<open>as string\<close>, as the input
  schema of the tool declares it.
\<close>

record tool_request =
  tr_name :: string
  tr_query :: "string option"

record text_content =
  c_type :: string
  c_text :: string

record tool_result =
  content :: "text_content list"
  isError :: bool

definition search_params :: "string \<Rightarrow> list_params" where
  "search_params userQuery =
     \<lparr>lp_pageSize = 10,
      lp_fields = ''files(id, name, mimeType, modifiedTime, size)'',
      lp_pageToken = None,
      lp_q = Some (formattedQuery userQuery)\<rparr>"

definition file_line :: "drive_file \<Rightarrow> string" where
  "file_line file =
     or_else (f_name file) ''Unknown'' @ '' ('' @ or_else (f_mimeType file) ''Unknown type'' @ '')''"

text \<open>
  \<open>res.data.files?.map(...).join("\n") || ''\<close> and \<open>res.data.files?.length ?? 0\<close>.
\<close>

definition fileList :: "drive_file list option \<Rightarrow> string" where
  "fileList files =
     or_else (case files of None \<Rightarrow> None
              | Some fs \<Rightarrow> Some (join [newline] (map file_line fs))) []"

definition files_length :: "drive_file list option \<Rightarrow> nat" where
  "files_length files = (case files of None \<Rightarrow> 0 | Some fs \<Rightarrow> length fs)"

definition search :: "drive \<Rightarrow> string \<Rightarrow> drive_call list \<times> tool_result outcome" where
  "search d userQuery =
     (let params = search_params userQuery
      in case files_list d params of
           Inl e \<Rightarrow> ([FilesList params], Thrown e)
         | Inr res \<Rightarrow>
             ([FilesList params],
              Returned \<lparr>content =
                [\<lparr>c_type = ''text'',
                  c_text = ''Found '' @ show_nat (files_length (lr_files res))
                           @ '' files:'' @ [newline] @ fileList (lr_files res)\<rparr>],
                isError = False\<rparr>))"

definition callTool :: "drive \<Rightarrow> tool_request \<Rightarrow> drive_call list \<times> tool_result outcome" where
  "callTool d request =
     (if tr_name request = ''search'' then
        (case tr_query request of
           None \<Rightarrow> ([], Thrown (Error ''Query parameter is required''))
         | Some userQuery \<Rightarrow>
             if \<not> truthy (Some userQuery)
             then ([], Thrown (Error ''Query parameter is required''))
             else search d userQuery)
      else ([], Thrown (Error ''Tool not found'')))"

section \<open>Credentials from the environment\<close>











section \<open>The specification's notions\<close>

text \<open>
  The fixed table of export formats, as the specification lists it: four members of the
  native-document family have a format of their own, every other one is exported as
  plain text.
\<close>

definition export_table :: "(string \<times> string) list" where
  "export_table =
     [(''application/vnd.google-apps.document'', ''text/markdown''),
      (''application/vnd.google-apps.spreadsheet'', ''text/csv''),
      (''application/vnd.google-apps.presentation'', ''text/plain''),
      (''application/vnd.google-apps.drawing'', ''image/png'')]"

definition export_format :: "string \<Rightarrow> string" where
  "export_format mimeType =
     (case map_of export_table mimeType of Some t \<Rightarrow> t | None \<Rightarrow> ''text/plain'')"

text \<open>A content element carries exactly one payload: text or blob, not both, not neither.\<close>

definition one_payload :: "resource_content \<Rightarrow> bool" where
  "one_payload c =
     (case (rc_text c, rc_blob c) of
        (Some t, None) \<Rightarrow> True
      | (None, Some t) \<Rightarrow> True
      | (None, None) \<Rightarrow> False
      | (Some t, Some t') \<Rightarrow> False)"

text \<open>The shape \<open>gdrive:///<id>\<close> of a resource URI.\<close>

definition uri_shape :: "string \<Rightarrow> bool" where
  "uri_shape uri = startsWith uri ''gdrive:///''"

text \<open>
  The summary of a search as the specification words it: the header with the number of
  matches, then one line per match in the order of the backend, lines separated by
  newlines. In \<open>claimed_line\<close> the name is replaced by \<open>Unknown\<close> only when it is
  absent; in \<open>summary_line\<close> the name and the mimeType are each replaced when absent or
  empty.
\<close>

definition claimed_line :: "drive_file \<Rightarrow> string" where
  "claimed_line file =
     (case f_name file of None \<Rightarrow> ''Unknown'' | Some n \<Rightarrow> n)
     @ '' ('' @ (case f_mimeType file of None \<Rightarrow> ''Unknown type'' | Some m \<Rightarrow> m) @ '')''"

definition summary_line :: "drive_file \<Rightarrow> string" where
  "summary_line file =
     (if f_name file = None \<or> f_name file = Some [] then ''Unknown'' else the (f_name file))
     @ '' (''
     @ (if f_mimeType file = None \<or> f_mimeType file = Some [] then ''Unknown type''
        else the (f_mimeType file))
     @ '')''"

fun summary_lines :: "(drive_file \<Rightarrow> string) \<Rightarrow> drive_file list \<Rightarrow> string" where
  "summary_lines line [] = []"
| "summary_lines line (file # files) =
     line file @ (if files = [] then [] else newline # summary_lines line files)"

definition summary :: "(drive_file \<Rightarrow> string) \<Rightarrow> drive_file list \<Rightarrow> string" where
  "summary line files =
     ''Found '' @ show_nat (length files) @ '' files:'' @ [newline] @ summary_lines line files"

text \<open>Reading a decimal numeral back.\<close>

definition digit_value :: "char \<Rightarrow> nat" where
  "digit_value c = of_char c - 48"

definition read_nat :: "string \<Rightarrow> nat" where
  "read_nat s = foldl (\<lambda>a c. 10 * a + digit_value c) 0 s"

section \<open>A small directory for the examples\<close>

text \<open>
  A remote directory with four files, listed in two pages, and a runtime whose buffers
  decode ASCII bytes and encode base64.
\<close>

definition sheet_file :: drive_file where
  "sheet_file = \<lparr>f_id = Some ''sheet1'', f_name = Some ''Q1 budget.xlsx'',
                  f_mimeType = Some ''application/vnd.google-apps.spreadsheet''\<rparr>"

definition notes_file :: drive_file where
  "notes_file = \<lparr>f_id = Some ''notes'', f_name = Some ''budget-notes.txt'',
                  f_mimeType = Some ''text/plain''\<rparr>"

definition sketch_file :: drive_file where
  "sketch_file = \<lparr>f_id = Some ''sketch'', f_name = Some ''floor plan'',
                   f_mimeType = Some ''application/vnd.google-apps.drawing''\<rparr>"

definition photo_file :: drive_file where
  "photo_file = \<lparr>f_id = Some ''photo'', f_name = Some [],
                  f_mimeType = Some ''image/jpeg''\<rparr>"

definition demo_files :: "drive_file list" where
  "demo_files = [sheet_file, notes_file, sketch_file, photo_file]"

definition demo_list :: "list_params \<Rightarrow> js_error + list_response" where
  "demo_list p =
     (case lp_q p of
        Some q \<Rightarrow>
          if q = formattedQuery ''budget''
          then Inr \<lparr>lr_files = Some [sheet_file, notes_file], lr_nextPageToken = None\<rparr>
          else if q = formattedQuery ''jpeg''
          then Inr \<lparr>lr_files = Some [photo_file], lr_nextPageToken = None\<rparr>
          else Inr \<lparr>lr_files = Some [], lr_nextPageToken = None\<rparr>
      | None \<Rightarrow>
          if lp_pageToken p = None
          then Inr \<lparr>lr_files = Some [sheet_file, notes_file], lr_nextPageToken = Some ''page2''\<rparr>
          else if lp_pageToken p = Some ''page2''
          then Inr \<lparr>lr_files = Some [sketch_file, photo_file], lr_nextPageToken = None\<rparr>
          else Inl (RemoteError ''Invalid page token''))"

definition demo_mimeType :: "string \<Rightarrow> js_error + string option" where
  "demo_mimeType fileId =
     (case find (\<lambda>file. f_id file = Some fileId) demo_files of
        Some file \<Rightarrow> Inr (f_mimeType file)
      | None \<Rightarrow> Inl (RemoteError ''File not found''))"

definition demo_drive :: drive where
  "demo_drive =
     \<lparr>files_list = demo_list,
      files_get_mimeType = demo_mimeType,
      files_get_media = (\<lambda>fileId. Inr [0x68, 0x69]),
      files_export = (\<lambda>fileId mimeType. Inr ''exported'')\<rparr>"

definition base64_char :: "nat \<Rightarrow> char" where
  "base64_char n =
     ''ABCDEFGHIJKLMNOPQRSTUVWXYZabcdefghijklmnopqrstuvwxyz0123456789+/'' ! n"

fun base64 :: "nat list \<Rightarrow> string" where
  "base64 [] = []"
| "base64 [a] = [base64_char (a div 4), base64_char (a mod 4 * 16), CHR ''='', CHR ''='']"
| "base64 [a, b] =
     [base64_char (a div 4), base64_char (a mod 4 * 16 + b div 16),
      base64_char (b mod 16 * 4), CHR ''='']"
| "base64 (a # b # c # rest) =
     [base64_char (a div 4), base64_char (a mod 4 * 16 + b div 16),
      base64_char (b mod 16 * 4 + c div 64), base64_char (c mod 64)] @ base64 rest"

definition demo_buffer :: buffer where
  "demo_buffer =
     \<lparr>toString_utf8 = map (\<lambda>w. char_of (unat w)),
      toString_base64 = (\<lambda>data. base64 (map unat data))\<rparr>"







section \<open>Properties of the search query\<close>

lemma backslash_neq_quote: "backslash \<noteq> quote"
  by (simp add: backslash_def quote_def)

lemma replace_all_char_concat:
  "replace_all_char p rep s = concat (map (\<lambda>c. if c = p then rep else [c]) s)"
  by (induction s) simp_all

lemma replace_all_char_append:
  "replace_all_char p rep (s @ t) = replace_all_char p rep s @ replace_all_char p rep t"
  by (induction s) simp_all

lemma escapedQuery_Nil: "escapedQuery [] = []"
  by (simp add: escapedQuery_def)

lemma escapedQuery_Cons: "escapedQuery (c # cs) = escape_char c @ escapedQuery cs"
  using backslash_neq_quote by (simp add: escapedQuery_def escape_char_def)

lemma escapedQuery_concat: "escapedQuery s = concat (map escape_char s)"
  by (induction s) (simp_all add: escapedQuery_Nil escapedQuery_Cons)

lemma literal_body_escape: "literal_body (escape_char c @ t) = literal_body t"
  by (cases t) (simp_all add: escape_char_def backslash_neq_quote)

lemma literal_body_escapedQuery: "literal_body (escapedQuery s)"
  by (induction s) (simp_all add: escapedQuery_Nil escapedQuery_Cons literal_body_escape)

lemma unescape_escape: "unescape (escape_char c @ t) = c # unescape t"
  by (cases t) (simp_all add: escape_char_def backslash_neq_quote)

lemma unescape_escapedQuery: "unescape (escapedQuery s) = s"
  by (induction s) (simp_all add: escapedQuery_Nil escapedQuery_Cons unescape_escape)

text \<open>
  Claim C1. For every query string, the escaped form that the search tool embeds into
  the template \<open>fullText contains '<escaped>'\<close> has every backslash of the query doubled
  and every single quote preceded by a backslash, every other character unchanged; read
  as the body of a quoted literal it holds no quote that ends the literal and no pending
  backslash, and it reads back as the query itself.
\<close>

theorem search_query_escaped:
  "escapedQuery userQuery = concat (map escape_char userQuery)
   \<and> formattedQuery userQuery
       = ''fullText contains '' @ [quote] @ concat (map escape_char userQuery) @ [quote]
   \<and> literal_body (escapedQuery userQuery)
   \<and> unescape (escapedQuery userQuery) = userQuery"
  by (simp add: formattedQuery_def escapedQuery_concat [symmetric]
      literal_body_escapedQuery unescape_escapedQuery)

section \<open>Properties of reading a resource\<close>

lemma startsWith_append: "startsWith (p @ s) p"
  by (induction p) simp_all

lemma replace_first_prefix: "replace_first pat [] (pat @ s) = s"
proof (cases "pat @ s")
  case Nil
  then show ?thesis by simp
next
  case (Cons c cs)
  have "startsWith (pat @ s) pat" by (rule startsWith_append)
  with Cons show ?thesis
    by (metis append_Nil append_eq_conv_conj replace_first.simps(2))
qed

lemma replace_first_absent: "\<not> str_includes s pat \<Longrightarrow> replace_first pat rep s = s"
  by (induction s) auto

lemma readResource_result:
  "snd (readResource d b uri) = Returned r \<Longrightarrow>
   \<exists>c. contents r = [c] \<and> rc_uri c = uri
       \<and> ((\<exists>t. rc_text c = Some t \<and> rc_blob c = None)
          \<or> (\<exists>t. rc_text c = None \<and> rc_blob c = Some t))"
  by (auto simp: readResource_def Let_def split: sum.splits if_splits)

lemma readResource_native:
  assumes "files_get_mimeType d (fileId_of_uri uri) = Inr (Some m)"
    and "startsWith m native_family"
  shows "readResource d b uri =
     (let fileId = fileId_of_uri uri; t = exportMimeType (Some m);
          calls = [FilesGetMimeType fileId, FilesExport fileId t]
      in case files_export d fileId t of
           Inl e \<Rightarrow> (calls, Thrown e)
         | Inr data \<Rightarrow>
             (calls, Returned \<lparr>contents =
                [\<lparr>rc_uri = uri, rc_mimeType = t, rc_text = Some data, rc_blob = None\<rparr>]\<rparr>))"
  using assms by (simp add: readResource_def Let_def is_native_def)

lemma exportMimeType_table: "exportMimeType (Some m) = export_format m"
  by (simp add: exportMimeType_def export_format_def export_table_def)

lemma demo_fileId: "fileId_of_uri ''gdrive:///notes'' = ''notes''"
  "fileId_of_uri ''gdrive:///sheet1'' = ''sheet1''"
  "fileId_of_uri ''gdrive:///sketch'' = ''sketch''"
  "fileId_of_uri ''gdrive:///photo'' = ''photo''"
  "fileId_of_uri ''photo'' = ''photo''"
  by (simp_all add: fileId_of_uri_def)

lemma demo_mimeType_values:
  "demo_mimeType ''notes'' = Inr (Some ''text/plain'')"
  "demo_mimeType ''sheet1'' = Inr (Some ''application/vnd.google-apps.spreadsheet'')"
  "demo_mimeType ''sketch'' = Inr (Some ''application/vnd.google-apps.drawing'')"
  "demo_mimeType ''photo'' = Inr (Some ''image/jpeg'')"
  by (simp_all add: demo_mimeType_def demo_files_def sheet_file_def notes_file_def
      sketch_file_def photo_file_def)

lemma demo_drive_fields:
  "files_list demo_drive = demo_list"
  "files_get_mimeType demo_drive = demo_mimeType"
  "files_get_media demo_drive fileId = Inr [0x68, 0x69]"
  "files_export demo_drive fileId t = Inr ''exported''"
  by (simp_all add: demo_drive_def)

lemma demo_buffer_values:
  "toString_utf8 demo_buffer [0x68, 0x69] = ''hi''"
  "toString_base64 demo_buffer [0x68, 0x69] = ''aGk=''"
  by code_simp+

lemma demo_read_notes:
  "readResource demo_drive demo_buffer ''gdrive:///notes'' =
     ([FilesGetMimeType ''notes'', FilesGetMedia ''notes''],
      Returned \<lparr>contents = [\<lparr>rc_uri = ''gdrive:///notes'', rc_mimeType = ''text/plain'',
                              rc_text = Some ''hi'', rc_blob = None\<rparr>]\<rparr>)"
  by (simp add: readResource_def Let_def demo_fileId demo_drive_fields demo_mimeType_values
      is_native_def native_family_def or_else_def demo_buffer_values)

text \<open>
  Claim C2. Every read-resource request that succeeds returns a contents array of
  exactly one element, and that element has exactly one of the two payload fields: text
  or blob, never both and never neither.
\<close>

theorem read_exactly_one_payload:
  "snd (readResource d b uri) = Returned r \<Longrightarrow>
   length (contents r) = 1 \<and> list_all one_payload (contents r)"
  using readResource_result [of d b uri r] by (auto simp: one_payload_def)

theorem read_exactly_one_payload_witness:
  "snd (readResource demo_drive demo_buffer ''gdrive:///notes'')
     = Returned \<lparr>contents = [\<lparr>rc_uri = ''gdrive:///notes'', rc_mimeType = ''text/plain'',
                              rc_text = Some ''hi'', rc_blob = None\<rparr>]\<rparr>
   \<and> one_payload \<lparr>rc_uri = ''gdrive:///notes'', rc_mimeType = ''text/plain'',
                   rc_text = Some ''hi'', rc_blob = None\<rparr>"
  using read_exactly_one_payload [of demo_drive demo_buffer "''gdrive:///notes''"]
  by (simp add: demo_read_notes)


lemma demo_read_sheet:
  "readResource demo_drive demo_buffer ''gdrive:///sheet1'' =
     ([FilesGetMimeType ''sheet1'', FilesExport ''sheet1'' ''text/csv''],
      Returned \<lparr>contents = [\<lparr>rc_uri = ''gdrive:///sheet1'', rc_mimeType = ''text/csv'',
                              rc_text = Some ''exported'', rc_blob = None\<rparr>]\<rparr>)"
  by (simp add: readResource_def Let_def demo_fileId demo_drive_fields demo_mimeType_values
      is_native_def native_family_def exportMimeType_def)

lemma demo_read_sketch:
  "readResource demo_drive demo_buffer ''gdrive:///sketch'' =
     ([FilesGetMimeType ''sketch'', FilesExport ''sketch'' ''image/png''],
      Returned \<lparr>contents = [\<lparr>rc_uri = ''gdrive:///sketch'', rc_mimeType = ''image/png'',
                              rc_text = Some ''exported'', rc_blob = None\<rparr>]\<rparr>)"
  by (simp add: readResource_def Let_def demo_fileId demo_drive_fields demo_mimeType_values
      is_native_def native_family_def exportMimeType_def)

lemma demo_read_bare_id:
  "readResource demo_drive demo_buffer ''photo'' =
     ([FilesGetMimeType ''photo'', FilesGetMedia ''photo''],
      Returned \<lparr>contents = [\<lparr>rc_uri = ''photo'', rc_mimeType = ''image/jpeg'',
                              rc_text = None, rc_blob = Some ''aGk=''\<rparr>]\<rparr>)"
  by (simp add: readResource_def Let_def demo_fileId demo_drive_fields demo_mimeType_values
      is_native_def native_family_def or_else_def demo_buffer_values)

text \<open>
  Claim C3. For every file whose metadata mimeType starts with the prefix of the
  native-document family, read-resource asks the remote directory for the export format
  that the fixed table gives (document to \<open>text/markdown\<close>, spreadsheet to \<open>text/csv\<close>,
  presentation to \<open>text/plain\<close>, drawing to \<open>image/png\<close>, every other member to
  \<open>text/plain\<close>) and labels what it returns with that format.
\<close>

theorem read_export_format:
  assumes "files_get_mimeType d (fileId_of_uri uri) = Inr (Some m)"
    and "startsWith m native_family"
  shows "fst (readResource d b uri)
           = [FilesGetMimeType (fileId_of_uri uri),
              FilesExport (fileId_of_uri uri) (export_format m)]
         \<and> (\<forall>r. snd (readResource d b uri) = Returned r
                \<longrightarrow> map rc_mimeType (contents r) = [export_format m])
         \<and> export_format ''application/vnd.google-apps.document'' = ''text/markdown''
         \<and> export_format ''application/vnd.google-apps.spreadsheet'' = ''text/csv''
         \<and> export_format ''application/vnd.google-apps.presentation'' = ''text/plain''
         \<and> export_format ''application/vnd.google-apps.drawing'' = ''image/png''
         \<and> (m \<notin> fst ` set export_table \<longrightarrow> export_format m = ''text/plain'')"
proof -
  have table: "export_format ''application/vnd.google-apps.document'' = ''text/markdown''"
    "export_format ''application/vnd.google-apps.spreadsheet'' = ''text/csv''"
    "export_format ''application/vnd.google-apps.presentation'' = ''text/plain''"
    "export_format ''application/vnd.google-apps.drawing'' = ''image/png''"
    by (simp_all add: export_format_def export_table_def)
  have other: "m \<notin> fst ` set export_table \<Longrightarrow> export_format m = ''text/plain''"
    by (simp add: export_format_def map_of_eq_None_iff [THEN iffD2])
  have calls: "fst (readResource d b uri)
           = [FilesGetMimeType (fileId_of_uri uri),
              FilesExport (fileId_of_uri uri) (export_format m)]"
    by (simp add: readResource_native [OF assms] Let_def exportMimeType_table split: sum.splits)
  have label: "map rc_mimeType (contents r) = [export_format m]"
    if "snd (readResource d b uri) = Returned r" for r
    using that
    by (auto simp: readResource_native [OF assms] Let_def exportMimeType_table split: sum.splits)
  show ?thesis
  proof (intro conjI allI impI)
    show "fst (readResource d b uri)
           = [FilesGetMimeType (fileId_of_uri uri),
              FilesExport (fileId_of_uri uri) (export_format m)]"
      by (rule calls)
  next
    fix r
    assume "snd (readResource d b uri) = Returned r"
    then show "map rc_mimeType (contents r) = [export_format m]"
      by (rule label)
  next
    assume "m \<notin> fst ` set export_table"
    then show "export_format m = ''text/plain''"
      by (rule other)
  qed (rule table)+
qed

theorem read_export_format_witness:
  "files_get_mimeType demo_drive (fileId_of_uri ''gdrive:///sheet1'')
     = Inr (Some ''application/vnd.google-apps.spreadsheet'')
   \<and> startsWith ''application/vnd.google-apps.spreadsheet'' native_family
   \<and> fst (readResource demo_drive demo_buffer ''gdrive:///sheet1'')
       = [FilesGetMimeType ''sheet1'', FilesExport ''sheet1'' ''text/csv'']"
proof -
  have meta: "files_get_mimeType demo_drive (fileId_of_uri ''gdrive:///sheet1'')
                = Inr (Some ''application/vnd.google-apps.spreadsheet'')"
    by (simp add: demo_fileId demo_drive_fields demo_mimeType_values)
  have family: "startsWith ''application/vnd.google-apps.spreadsheet'' native_family"
    by (simp add: native_family_def)
  have format: "export_format ''application/vnd.google-apps.spreadsheet'' = ''text/csv''"
    by (simp add: export_format_def export_table_def)
  have "fst (readResource demo_drive demo_buffer ''gdrive:///sheet1'')
          = [FilesGetMimeType (fileId_of_uri ''gdrive:///sheet1''),
             FilesExport (fileId_of_uri ''gdrive:///sheet1'')
               (export_format ''application/vnd.google-apps.spreadsheet'')]"
    using read_export_format [OF meta family, of demo_buffer] by (rule conjunct1)
  then have calls: "fst (readResource demo_drive demo_buffer ''gdrive:///sheet1'')
          = [FilesGetMimeType ''sheet1'', FilesExport ''sheet1'' ''text/csv'']"
    by (simp only: demo_fileId format)
  show ?thesis
    by (rule conjI [OF meta conjI [OF family calls]])
qed

text \<open>
  Claim C10. For every file whose metadata mimeType starts with
  \<open>application/vnd.google-apps\<close>, a successful read returns what the export call
  delivered in the text field, labelled with the export format, and no blob; so also for
  a drawing, whose export format is \<open>image/png\<close>.
\<close>

theorem read_native_as_text:
  assumes "files_get_mimeType d (fileId_of_uri uri) = Inr (Some m)"
    and "startsWith m ''application/vnd.google-apps''"
    and "snd (readResource d b uri) = Returned r"
  shows "\<exists>data. files_export d (fileId_of_uri uri) (exportMimeType (Some m)) = Inr data
           \<and> contents r = [\<lparr>rc_uri = uri, rc_mimeType = exportMimeType (Some m),
                             rc_text = Some data, rc_blob = None\<rparr>]
           \<and> (m = ''application/vnd.google-apps.drawing''
                \<longrightarrow> exportMimeType (Some m) = ''image/png'')"
proof -
  from assms(2) have family: "startsWith m native_family"
    by (simp add: native_family_def)
  have drawing: "exportMimeType (Some ''application/vnd.google-apps.drawing'') = ''image/png''"
    by (simp add: exportMimeType_def)
  from assms(3) obtain data where
    "files_export d (fileId_of_uri uri) (exportMimeType (Some m)) = Inr data"
    "contents r = [\<lparr>rc_uri = uri, rc_mimeType = exportMimeType (Some m),
                     rc_text = Some data, rc_blob = None\<rparr>]"
    by (auto simp: readResource_native [OF assms(1) family] Let_def split: sum.splits)
  moreover have "exportMimeType (Some m) = ''image/png''"
    if "m = ''application/vnd.google-apps.drawing''"
    unfolding that by (rule drawing)
  ultimately show ?thesis
    by (intro exI [of _ data] conjI impI)
qed

theorem read_native_as_text_witness:
  "files_get_mimeType demo_drive (fileId_of_uri ''gdrive:///sketch'')
     = Inr (Some ''application/vnd.google-apps.drawing'')
   \<and> startsWith ''application/vnd.google-apps.drawing'' ''application/vnd.google-apps''
   \<and> snd (readResource demo_drive demo_buffer ''gdrive:///sketch'')
       = Returned \<lparr>contents = [\<lparr>rc_uri = ''gdrive:///sketch'', rc_mimeType = ''image/png'',
                                rc_text = Some ''exported'', rc_blob = None\<rparr>]\<rparr>"
proof -
  have meta: "files_get_mimeType demo_drive (fileId_of_uri ''gdrive:///sketch'')
                = Inr (Some ''application/vnd.google-apps.drawing'')"
    by (simp add: demo_fileId demo_drive_fields demo_mimeType_values)
  have family: "startsWith ''application/vnd.google-apps.drawing'' ''application/vnd.google-apps''"
    by simp
  obtain r where ok: "snd (readResource demo_drive demo_buffer ''gdrive:///sketch'') = Returned r"
    by (simp add: demo_read_sketch)
  from read_native_as_text [OF meta family ok]
  obtain data where
    export: "files_export demo_drive (fileId_of_uri ''gdrive:///sketch'')
               (exportMimeType (Some ''application/vnd.google-apps.drawing'')) = Inr data"
    and one: "contents r = [\<lparr>rc_uri = ''gdrive:///sketch'',
                 rc_mimeType = exportMimeType (Some ''application/vnd.google-apps.drawing''),
                 rc_text = Some data, rc_blob = None\<rparr>]"
    and png: "exportMimeType (Some ''application/vnd.google-apps.drawing'') = ''image/png''"
    by blast
  from export have "data = ''exported''"
    by (simp add: demo_drive_fields)
  with one png have "r = \<lparr>contents = [\<lparr>rc_uri = ''gdrive:///sketch'', rc_mimeType = ''image/png'',
                                rc_text = Some ''exported'', rc_blob = None\<rparr>]\<rparr>"
    by (cases r) simp
  with ok have result: "snd (readResource demo_drive demo_buffer ''gdrive:///sketch'')
       = Returned \<lparr>contents = [\<lparr>rc_uri = ''gdrive:///sketch'', rc_mimeType = ''image/png'',
                                rc_text = Some ''exported'', rc_blob = None\<rparr>]\<rparr>"
    by (simp only:)
  show ?thesis
    by (rule conjI [OF meta conjI [OF family result]])
qed


lemma readResource_never_exits: "snd (readResource d b uri) \<noteq> Exit n"
  by (simp add: readResource_def Let_def split: sum.splits)

lemma readResource_first_call:
  "\<exists>rest. fst (readResource d b uri) = FilesGetMimeType (fileId_of_uri uri) # rest"
  by (simp add: readResource_def Let_def split: sum.splits)

lemma readResource_rejected:
  "files_get_mimeType d (fileId_of_uri uri) = Inl e \<Longrightarrow>
   readResource d b uri = ([FilesGetMimeType (fileId_of_uri uri)], Thrown e)"
  by (simp add: readResource_def Let_def)

lemma readResource_export_rejected:
  "files_get_mimeType d (fileId_of_uri uri) = Inr m \<Longrightarrow> is_native m \<Longrightarrow>
   files_export d (fileId_of_uri uri) (exportMimeType m) = Inl e \<Longrightarrow>
   snd (readResource d b uri) = Thrown e"
  by (simp add: readResource_def Let_def)

lemma readResource_export_answered:
  "files_get_mimeType d (fileId_of_uri uri) = Inr m \<Longrightarrow> is_native m \<Longrightarrow>
   files_export d (fileId_of_uri uri) (exportMimeType m) = Inr data \<Longrightarrow>
   snd (readResource d b uri)
     = Returned \<lparr>contents = [\<lparr>rc_uri = uri, rc_mimeType = exportMimeType m,
                              rc_text = Some data, rc_blob = None\<rparr>]\<rparr>"
  by (simp add: readResource_def Let_def)

lemma readResource_media_rejected:
  "files_get_mimeType d (fileId_of_uri uri) = Inr m \<Longrightarrow> \<not> is_native m \<Longrightarrow>
   files_get_media d (fileId_of_uri uri) = Inl e \<Longrightarrow>
   snd (readResource d b uri) = Thrown e"
  by (simp add: readResource_def Let_def)

lemma readResource_media_answered:
  "files_get_mimeType d (fileId_of_uri uri) = Inr m \<Longrightarrow> \<not> is_native m \<Longrightarrow>
   files_get_media d (fileId_of_uri uri) = Inr data \<Longrightarrow>
   snd (readResource d b uri)
     = Returned \<lparr>contents =
         [if startsWith (or_else m ''application/octet-stream'') ''text/''
             \<or> or_else m ''application/octet-stream'' = ''application/json''
          then \<lparr>rc_uri = uri, rc_mimeType = or_else m ''application/octet-stream'',
                rc_text = Some (toString_utf8 b data), rc_blob = None\<rparr>
          else \<lparr>rc_uri = uri, rc_mimeType = or_else m ''application/octet-stream'',
                rc_text = None, rc_blob = Some (toString_base64 b data)\<rparr>]\<rparr>"
  by (simp add: readResource_def Let_def)

lemma replace_first_at_start:
  "startsWith s pat \<Longrightarrow> replace_first pat rep s = rep @ drop (length pat) s"
  by (cases s; cases pat) simp_all

lemma replace_first_first_occurrence:
  "(\<forall>k<length pre. \<not> startsWith (drop k (pre @ pat @ post)) pat) \<Longrightarrow>
   replace_first pat rep (pre @ pat @ post) = pre @ rep @ post"
proof (induction pre)
  case Nil
  have "startsWith (pat @ post) pat"
    by (rule startsWith_append)
  then show ?case
    by (simp add: replace_first_at_start)
next
  case (Cons c pre)
  from Cons.prems have "\<not> startsWith (drop 0 ((c # pre) @ pat @ post)) pat"
    by blast
  then have here: "\<not> startsWith (c # pre @ pat @ post) pat"
    by simp
  have "\<forall>k<length pre. \<not> startsWith (drop k (pre @ pat @ post)) pat"
  proof (intro allI impI)
    fix k
    assume "k < length pre"
    then have "Suc k < length (c # pre)"
      by simp
    with Cons.prems have "\<not> startsWith (drop (Suc k) ((c # pre) @ pat @ post)) pat"
      by blast
    then show "\<not> startsWith (drop k (pre @ pat @ post)) pat"
      by simp
  qed
  then have "replace_first pat rep (pre @ pat @ post) = pre @ rep @ post"
    by (rule Cons.IH)
  with here show ?case
    by simp
qed

lemma fileId_of_first_occurrence:
  "(\<forall>k<length pre. \<not> startsWith (drop k (pre @ ''gdrive:///'' @ post)) ''gdrive:///'') \<Longrightarrow>
   fileId_of_uri (pre @ ''gdrive:///'' @ post) = pre @ post"
  unfolding fileId_of_uri_def
  using replace_first_first_occurrence [of pre "''gdrive:///''" post "[]"] by simp

lemma fileId_of_well_formed: "fileId_of_uri (''gdrive:///'' @ fileId) = fileId"
  unfolding fileId_of_uri_def by (rule replace_first_prefix)

lemma fileId_of_other: "\<not> str_includes uri ''gdrive:///'' \<Longrightarrow> fileId_of_uri uri = uri"
  unfolding fileId_of_uri_def by (rule replace_first_absent)

text \<open>
  Claim C8, as the code has it. The read handler does not examine the shape of the uri:
  it removes the first occurrence of \<open>gdrive:///\<close>, if there is one, and asks the
  remote directory for the file of that id, so that \<open>gdrive:///<id>\<close> gives \<open><id>\<close> and a
  uri without the scheme is taken as the id itself. The request succeeds, with the one
  content item of that file, whenever the remote directory answers the metadata call and
  the export or download call that follows it; when the remote directory rejects one of
  the two calls, the handler throws what it was given; in no case does the handler end
  the process.
\<close>

theorem read_uri_not_validated:
  "(\<exists>rest. fst (readResource d b uri) = FilesGetMimeType (fileId_of_uri uri) # rest)
   \<and> fileId_of_uri (''gdrive:///'' @ fileId) = fileId
   \<and> ((\<forall>k<length pre. \<not> startsWith (drop k (pre @ ''gdrive:///'' @ post)) ''gdrive:///'')
        \<longrightarrow> fileId_of_uri (pre @ ''gdrive:///'' @ post) = pre @ post)
   \<and> (\<not> str_includes uri ''gdrive:///'' \<longrightarrow> fileId_of_uri uri = uri)
   \<and> (\<forall>e. files_get_mimeType d (fileId_of_uri uri) = Inl e \<longrightarrow>
          readResource d b uri = ([FilesGetMimeType (fileId_of_uri uri)], Thrown e))
   \<and> (\<forall>m e. files_get_mimeType d (fileId_of_uri uri) = Inr m \<and> is_native m
          \<and> files_export d (fileId_of_uri uri) (exportMimeType m) = Inl e \<longrightarrow>
          snd (readResource d b uri) = Thrown e)
   \<and> (\<forall>m data. files_get_mimeType d (fileId_of_uri uri) = Inr m \<and> is_native m
          \<and> files_export d (fileId_of_uri uri) (exportMimeType m) = Inr data \<longrightarrow>
          snd (readResource d b uri)
            = Returned \<lparr>contents = [\<lparr>rc_uri = uri, rc_mimeType = exportMimeType m,
                                     rc_text = Some data, rc_blob = None\<rparr>]\<rparr>)
   \<and> (\<forall>m e. files_get_mimeType d (fileId_of_uri uri) = Inr m \<and> \<not> is_native m
          \<and> files_get_media d (fileId_of_uri uri) = Inl e \<longrightarrow>
          snd (readResource d b uri) = Thrown e)
   \<and> (\<forall>m data. files_get_mimeType d (fileId_of_uri uri) = Inr m \<and> \<not> is_native m
          \<and> files_get_media d (fileId_of_uri uri) = Inr data \<longrightarrow>
          snd (readResource d b uri)
            = Returned \<lparr>contents =
                [if startsWith (or_else m ''application/octet-stream'') ''text/''
                    \<or> or_else m ''application/octet-stream'' = ''application/json''
                 then \<lparr>rc_uri = uri, rc_mimeType = or_else m ''application/octet-stream'',
                       rc_text = Some (toString_utf8 b data), rc_blob = None\<rparr>
                 else \<lparr>rc_uri = uri, rc_mimeType = or_else m ''application/octet-stream'',
                       rc_text = None, rc_blob = Some (toString_base64 b data)\<rparr>]\<rparr>)
   \<and> (\<forall>n. snd (readResource d b uri) \<noteq> Exit n)"
proof (intro conjI allI impI)
  show "\<exists>rest. fst (readResource d b uri) = FilesGetMimeType (fileId_of_uri uri) # rest"
    by (rule readResource_first_call)
next
  show "fileId_of_uri (''gdrive:///'' @ fileId) = fileId"
    by (rule fileId_of_well_formed)
next
  assume "\<forall>k<length pre. \<not> startsWith (drop k (pre @ ''gdrive:///'' @ post)) ''gdrive:///''"
  then show "fileId_of_uri (pre @ ''gdrive:///'' @ post) = pre @ post"
    by (rule fileId_of_first_occurrence)
next
  assume "\<not> str_includes uri ''gdrive:///''"
  then show "fileId_of_uri uri = uri"
    by (rule fileId_of_other)
next
  fix e
  assume "files_get_mimeType d (fileId_of_uri uri) = Inl e"
  then show "readResource d b uri = ([FilesGetMimeType (fileId_of_uri uri)], Thrown e)"
    by (rule readResource_rejected)
next
  fix m e
  assume "files_get_mimeType d (fileId_of_uri uri) = Inr m \<and> is_native m
          \<and> files_export d (fileId_of_uri uri) (exportMimeType m) = Inl e"
  then show "snd (readResource d b uri) = Thrown e"
    by (elim conjE) (rule readResource_export_rejected)
next
  fix m data
  assume "files_get_mimeType d (fileId_of_uri uri) = Inr m \<and> is_native m
          \<and> files_export d (fileId_of_uri uri) (exportMimeType m) = Inr data"
  then show "snd (readResource d b uri)
            = Returned \<lparr>contents = [\<lparr>rc_uri = uri, rc_mimeType = exportMimeType m,
                                     rc_text = Some data, rc_blob = None\<rparr>]\<rparr>"
    by (elim conjE) (rule readResource_export_answered)
next
  fix m e
  assume "files_get_mimeType d (fileId_of_uri uri) = Inr m \<and> \<not> is_native m
          \<and> files_get_media d (fileId_of_uri uri) = Inl e"
  then show "snd (readResource d b uri) = Thrown e"
    by (elim conjE) (rule readResource_media_rejected)
next
  fix m data
  assume "files_get_mimeType d (fileId_of_uri uri) = Inr m \<and> \<not> is_native m
          \<and> files_get_media d (fileId_of_uri uri) = Inr data"
  then show "snd (readResource d b uri)
            = Returned \<lparr>contents =
                [if startsWith (or_else m ''application/octet-stream'') ''text/''
                    \<or> or_else m ''application/octet-stream'' = ''application/json''
                 then \<lparr>rc_uri = uri, rc_mimeType = or_else m ''application/octet-stream'',
                       rc_text = Some (toString_utf8 b data), rc_blob = None\<rparr>
                 else \<lparr>rc_uri = uri, rc_mimeType = or_else m ''application/octet-stream'',
                       rc_text = None, rc_blob = Some (toString_base64 b data)\<rparr>]\<rparr>"
    by (elim conjE) (rule readResource_media_answered)
next
  fix n
  show "snd (readResource d b uri) \<noteq> Exit n"
    by (rule readResource_never_exits)
qed

theorem read_uri_not_validated_witness:
  "\<not> str_includes ''notes'' ''gdrive:///''
   \<and> files_get_mimeType demo_drive ''notes'' = Inr (Some ''text/plain'')
   \<and> \<not> is_native (Some ''text/plain'')
   \<and> files_get_media demo_drive ''notes'' = Inr [0x68, 0x69]
   \<and> snd (readResource demo_drive demo_buffer ''notes'')
       = Returned \<lparr>contents = [\<lparr>rc_uri = ''notes'', rc_mimeType = ''text/plain'',
                                rc_text = Some ''hi'', rc_blob = None\<rparr>]\<rparr>
   \<and> fileId_of_uri ''xgdrive:///notes'' = ''xnotes''"
proof -
  note all = read_uri_not_validated [where d = demo_drive and b = demo_buffer
      and uri = "''notes''" and pre = "''x''" and post = "''notes''" and fileId = "[]"]
  have absent: "\<not> str_includes ''notes'' ''gdrive:///''"
    by simp
  have "\<not> str_includes ''notes'' ''gdrive:///'' \<longrightarrow> fileId_of_uri ''notes'' = ''notes''"
    by (rule all [THEN conjunct2, THEN conjunct2, THEN conjunct2, THEN conjunct1])
  then have fileId: "fileId_of_uri ''notes'' = ''notes''"
    using absent by (rule mp)
  have meta: "files_get_mimeType demo_drive ''notes'' = Inr (Some ''text/plain'')"
    by (simp add: demo_drive_fields demo_mimeType_values)
  have plain: "\<not> is_native (Some ''text/plain'')"
    by (simp add: is_native_def native_family_def)
  have media: "files_get_media demo_drive ''notes'' = Inr [0x68, 0x69]"
    by (rule demo_drive_fields)
  have answered: "files_get_mimeType demo_drive (fileId_of_uri ''notes'') = Inr (Some ''text/plain'')
      \<and> \<not> is_native (Some ''text/plain'')
      \<and> files_get_media demo_drive (fileId_of_uri ''notes'') = Inr [0x68, 0x69]"
    unfolding fileId by (rule conjI [OF meta conjI [OF plain media]])
  note download = all [THEN conjunct2, THEN conjunct2, THEN conjunct2, THEN conjunct2,
      THEN conjunct2, THEN conjunct2, THEN conjunct2, THEN conjunct2, THEN conjunct1,
      rule_format, of "Some ''text/plain''" "[0x68, 0x69]", OF answered]
  have text_type: "or_else (Some ''text/plain'') ''application/octet-stream'' = ''text/plain''"
    by (simp add: or_else_def)
  from download have result: "snd (readResource demo_drive demo_buffer ''notes'')
       = Returned \<lparr>contents = [\<lparr>rc_uri = ''notes'', rc_mimeType = ''text/plain'',
                                rc_text = Some ''hi'', rc_blob = None\<rparr>]\<rparr>"
    by (simp add: text_type demo_buffer_values)
  have first: "\<forall>k<length ''x''. \<not> startsWith (drop k (''x'' @ ''gdrive:///'' @ ''notes'')) ''gdrive:///''"
    by simp
  have "(\<forall>k<length ''x''. \<not> startsWith (drop k (''x'' @ ''gdrive:///'' @ ''notes'')) ''gdrive:///'')
        \<longrightarrow> fileId_of_uri (''x'' @ ''gdrive:///'' @ ''notes'') = ''x'' @ ''notes''"
    by (rule all [THEN conjunct2, THEN conjunct2, THEN conjunct1])
  then have "fileId_of_uri (''x'' @ ''gdrive:///'' @ ''notes'') = ''x'' @ ''notes''"
    using first by (rule mp)
  then have removed: "fileId_of_uri ''xgdrive:///notes'' = ''xnotes''"
    by simp
  show ?thesis
    by (rule conjI [OF absent conjI [OF meta conjI [OF plain conjI [OF media
        conjI [OF result removed]]]]])
qed

text \<open>
  Against claim C8 as stated: the uri \<open>photo\<close> has not the shape \<open>gdrive:///<id>\<close>, and
  reading it succeeds, with the content of the file whose id is \<open>photo\<close>.
\<close>

theorem read_malformed_uri_counterexample:
  "\<not> uri_shape ''photo''
   \<and> readResource demo_drive demo_buffer ''photo''
       = ([FilesGetMimeType ''photo'', FilesGetMedia ''photo''],
          Returned \<lparr>contents = [\<lparr>rc_uri = ''photo'', rc_mimeType = ''image/jpeg'',
                                  rc_text = None, rc_blob = Some ''aGk=''\<rparr>]\<rparr>)"
proof
  show "\<not> uri_shape ''photo''"
    by (simp add: uri_shape_def)
  show "readResource demo_drive demo_buffer ''photo''
       = ([FilesGetMimeType ''photo'', FilesGetMedia ''photo''],
          Returned \<lparr>contents = [\<lparr>rc_uri = ''photo'', rc_mimeType = ''image/jpeg'',
                                  rc_text = None, rc_blob = Some ''aGk=''\<rparr>]\<rparr>)"
    by (rule demo_read_bare_id)
qed


section \<open>Properties of the search tool\<close>

lemma callTool_not_search:
  "tr_name request \<noteq> ''search'' \<Longrightarrow> callTool d request = ([], Thrown (Error ''Tool not found''))"
  by (simp add: callTool_def)

lemma callTool_no_query:
  "tr_name request = ''search'' \<Longrightarrow> \<not> truthy (tr_query request) \<Longrightarrow>
   callTool d request = ([], Thrown (Error ''Query parameter is required''))"
  by (cases "tr_query request") (simp_all add: callTool_def)

lemma callTool_query:
  "tr_name request = ''search'' \<Longrightarrow> tr_query request = Some userQuery \<Longrightarrow> userQuery \<noteq> [] \<Longrightarrow>
   callTool d request = search d userQuery"
  by (simp add: callTool_def truthy_def)

lemma search_never_exits: "snd (search d userQuery) \<noteq> Exit n"
  by (simp add: search_def Let_def split: sum.splits)

lemma callTool_never_exits: "snd (callTool d request) \<noteq> Exit n"
  by (simp add: callTool_def search_never_exits split: option.splits)

lemma search_calls: "fst (search d userQuery) = [FilesList (search_params userQuery)]"
  by (simp add: search_def Let_def split: sum.splits)

lemma search_rejected:
  "files_list d (search_params userQuery) = Inl e \<Longrightarrow> snd (search d userQuery) = Thrown e"
  by (simp add: search_def Let_def)

lemma search_answered:
  "files_list d (search_params userQuery) = Inr res \<Longrightarrow>
   snd (search d userQuery) =
     Returned \<lparr>content =
       [\<lparr>c_type = ''text'',
         c_text = ''Found '' @ show_nat (files_length (lr_files res))
                  @ '' files:'' @ [newline] @ fileList (lr_files res)\<rparr>],
       isError = False\<rparr>"
  by (simp add: search_def Let_def)

text \<open>
  Claim C5. A call of the tool \<open>search\<close> whose arguments lack the query fails with an
  error that mentions the required query parameter; a call of any other tool fails with
  the error that the tool was not found; both are thrown by the handler, before any
  call to the remote directory, and the handler never ends the process.
\<close>

theorem call_tool_failures:
  "(tr_name request = ''search'' \<and> tr_query request = None \<longrightarrow>
      callTool d request = ([], Thrown (Error ''Query parameter is required'')))
   \<and> (tr_name request \<noteq> ''search'' \<longrightarrow>
      callTool d request = ([], Thrown (Error ''Tool not found'')))
   \<and> (\<forall>n. snd (callTool d request) \<noteq> Exit n)"
proof (intro conjI allI impI)
  assume "tr_name request = ''search'' \<and> tr_query request = None"
  then show "callTool d request = ([], Thrown (Error ''Query parameter is required''))"
    by (simp add: callTool_no_query truthy_def)
next
  assume "tr_name request \<noteq> ''search''"
  then show "callTool d request = ([], Thrown (Error ''Tool not found''))"
    by (rule callTool_not_search)
next
  fix n
  show "snd (callTool d request) \<noteq> Exit n"
    by (rule callTool_never_exits)
qed

theorem call_tool_failures_witness:
  "callTool demo_drive \<lparr>tr_name = ''search'', tr_query = None\<rparr>
     = ([], Thrown (Error ''Query parameter is required''))
   \<and> callTool demo_drive \<lparr>tr_name = ''remove'', tr_query = Some ''budget''\<rparr>
     = ([], Thrown (Error ''Tool not found''))"
proof
  have no_query: "tr_name \<lparr>tr_name = ''search'', tr_query = None\<rparr> = ''search''
        \<and> tr_query \<lparr>tr_name = ''search'', tr_query = None\<rparr> = None"
    by simp
  have "tr_name \<lparr>tr_name = ''search'', tr_query = None\<rparr> = ''search''
        \<and> tr_query \<lparr>tr_name = ''search'', tr_query = None\<rparr> = None
        \<longrightarrow> callTool demo_drive \<lparr>tr_name = ''search'', tr_query = None\<rparr>
              = ([], Thrown (Error ''Query parameter is required''))"
    using call_tool_failures [of "\<lparr>tr_name = ''search'', tr_query = None\<rparr>" demo_drive]
    by (rule conjunct1)
  then show "callTool demo_drive \<lparr>tr_name = ''search'', tr_query = None\<rparr>
     = ([], Thrown (Error ''Query parameter is required''))"
    using no_query by (rule mp)
next
  have other: "tr_name \<lparr>tr_name = ''remove'', tr_query = Some ''budget''\<rparr> \<noteq> ''search''"
    by simp
  have "tr_name \<lparr>tr_name = ''remove'', tr_query = Some ''budget''\<rparr> \<noteq> ''search''
        \<longrightarrow> callTool demo_drive \<lparr>tr_name = ''remove'', tr_query = Some ''budget''\<rparr>
              = ([], Thrown (Error ''Tool not found''))"
    using call_tool_failures [of "\<lparr>tr_name = ''remove'', tr_query = Some ''budget''\<rparr>" demo_drive]
    by (rule conjunct1 [OF conjunct2])
  then show "callTool demo_drive \<lparr>tr_name = ''remove'', tr_query = Some ''budget''\<rparr>
     = ([], Thrown (Error ''Tool not found''))"
    using other by (rule mp)
qed


lemma demo_search_budget:
  "files_list demo_drive (search_params ''budget'')
     = Inr \<lparr>lr_files = Some [sheet_file, notes_file], lr_nextPageToken = None\<rparr>"
  by (simp add: demo_drive_fields demo_list_def search_params_def)

lemma formattedQuery_inject: "formattedQuery p = formattedQuery q \<longleftrightarrow> p = q"
proof
  assume "formattedQuery p = formattedQuery q"
  then have "escapedQuery p = escapedQuery q"
    by (simp add: formattedQuery_def)
  then have "unescape (escapedQuery p) = unescape (escapedQuery q)"
    by simp
  then show "p = q"
    by (simp only: unescape_escapedQuery)
qed simp

lemma demo_search_jpeg:
  "files_list demo_drive (search_params ''jpeg'')
     = Inr \<lparr>lr_files = Some [photo_file], lr_nextPageToken = None\<rparr>"
  by (simp add: demo_drive_fields demo_list_def search_params_def formattedQuery_inject)

text \<open>
  Claim C9, as the code has it. For every non-empty string given as the query, the tool
  \<open>search\<close> accepts it, whatever its length and its characters: the handler makes one
  call to the remote directory, with the escaped query in the template, and what that
  call answers decides the outcome. An absent query and the empty string are both
  rejected with the error that the query parameter is required.
\<close>

theorem search_accepts_nonempty_query:
  "(userQuery \<noteq> [] \<longrightarrow>
      fst (callTool d \<lparr>tr_name = ''search'', tr_query = Some userQuery\<rparr>)
        = [FilesList \<lparr>lp_pageSize = 10,
                      lp_fields = ''files(id, name, mimeType, modifiedTime, size)'',
                      lp_pageToken = None,
                      lp_q = Some (formattedQuery userQuery)\<rparr>]
      \<and> (\<forall>e. files_list d (search_params userQuery) = Inl e \<longrightarrow>
             snd (callTool d \<lparr>tr_name = ''search'', tr_query = Some userQuery\<rparr>) = Thrown e)
      \<and> (\<forall>res. files_list d (search_params userQuery) = Inr res \<longrightarrow>
             (\<exists>r. snd (callTool d \<lparr>tr_name = ''search'', tr_query = Some userQuery\<rparr>)
                    = Returned r)))
   \<and> (q = None \<or> q = Some [] \<longrightarrow>
        callTool d \<lparr>tr_name = ''search'', tr_query = q\<rparr>
          = ([], Thrown (Error ''Query parameter is required'')))"
proof (intro conjI allI impI)
  assume "userQuery \<noteq> []"
  then have call: "callTool d \<lparr>tr_name = ''search'', tr_query = Some userQuery\<rparr> = search d userQuery"
    by (simp add: callTool_query)
  show "fst (callTool d \<lparr>tr_name = ''search'', tr_query = Some userQuery\<rparr>)
        = [FilesList \<lparr>lp_pageSize = 10,
                      lp_fields = ''files(id, name, mimeType, modifiedTime, size)'',
                      lp_pageToken = None,
                      lp_q = Some (formattedQuery userQuery)\<rparr>]"
    by (simp add: call search_calls search_params_def)
  show "snd (callTool d \<lparr>tr_name = ''search'', tr_query = Some userQuery\<rparr>) = Thrown e"
    if "files_list d (search_params userQuery) = Inl e" for e
    using that by (simp add: call search_rejected)
  show "\<exists>r. snd (callTool d \<lparr>tr_name = ''search'', tr_query = Some userQuery\<rparr>) = Returned r"
    if "files_list d (search_params userQuery) = Inr res" for res
    using that by (simp add: call search_answered)
next
  assume "q = None \<or> q = Some []"
  then have "\<not> truthy q"
    by (auto simp: truthy_def)
  then show "callTool d \<lparr>tr_name = ''search'', tr_query = q\<rparr>
          = ([], Thrown (Error ''Query parameter is required''))"
    by (simp add: callTool_no_query)
qed

theorem search_accepts_nonempty_query_witness:
  "''budget'' \<noteq> []
   \<and> fst (callTool demo_drive \<lparr>tr_name = ''search'', tr_query = Some ''budget''\<rparr>)
        = [FilesList \<lparr>lp_pageSize = 10,
                      lp_fields = ''files(id, name, mimeType, modifiedTime, size)'',
                      lp_pageToken = None,
                      lp_q = Some (formattedQuery ''budget'')\<rparr>]
   \<and> (\<exists>r. snd (callTool demo_drive \<lparr>tr_name = ''search'', tr_query = Some ''budget''\<rparr>)
            = Returned r)"
proof -
  have nonempty: "''budget'' \<noteq> []"
    by simp
  have accepted:
    "fst (callTool demo_drive \<lparr>tr_name = ''search'', tr_query = Some ''budget''\<rparr>)
        = [FilesList \<lparr>lp_pageSize = 10,
                      lp_fields = ''files(id, name, mimeType, modifiedTime, size)'',
                      lp_pageToken = None,
                      lp_q = Some (formattedQuery ''budget'')\<rparr>]
      \<and> (\<forall>e. files_list demo_drive (search_params ''budget'') = Inl e \<longrightarrow>
             snd (callTool demo_drive \<lparr>tr_name = ''search'', tr_query = Some ''budget''\<rparr>)
               = Thrown e)
      \<and> (\<forall>res. files_list demo_drive (search_params ''budget'') = Inr res \<longrightarrow>
             (\<exists>r. snd (callTool demo_drive \<lparr>tr_name = ''search'', tr_query = Some ''budget''\<rparr>)
                    = Returned r))"
    using search_accepts_nonempty_query [of "''budget''" demo_drive None, THEN conjunct1] nonempty
    by (rule mp)
  then have calls:
    "fst (callTool demo_drive \<lparr>tr_name = ''search'', tr_query = Some ''budget''\<rparr>)
        = [FilesList \<lparr>lp_pageSize = 10,
                      lp_fields = ''files(id, name, mimeType, modifiedTime, size)'',
                      lp_pageToken = None,
                      lp_q = Some (formattedQuery ''budget'')\<rparr>]"
    by (rule conjunct1)
  from accepted have
    "\<forall>res. files_list demo_drive (search_params ''budget'') = Inr res \<longrightarrow>
         (\<exists>r. snd (callTool demo_drive \<lparr>tr_name = ''search'', tr_query = Some ''budget''\<rparr>)
                = Returned r)"
    by (rule conjunct2 [OF conjunct2])
  with demo_search_budget
  have returned: "\<exists>r. snd (callTool demo_drive \<lparr>tr_name = ''search'', tr_query = Some ''budget''\<rparr>)
                = Returned r"
    by blast
  show ?thesis
    by (rule conjI [OF nonempty conjI [OF calls returned]])
qed

text \<open>
  Against claim C9 as stated: the empty string is a string value of the query argument,
  and the handler rejects it without a call to the remote directory.
\<close>

theorem search_empty_query_counterexample:
  "callTool demo_drive \<lparr>tr_name = ''search'', tr_query = Some []\<rparr>
     = ([], Thrown (Error ''Query parameter is required''))"
  by (simp add: callTool_def truthy_def)


lemma file_line_summary_line: "file_line file = summary_line file"
  by (auto simp: file_line_def summary_line_def or_else_def split: option.splits)

lemma join_summary_lines: "join [newline] (map line files) = summary_lines line files"
  by (induction files rule: induct_list012) simp_all

lemma fileList_Some: "fileList (Some files) = summary_lines file_line files"
proof -
  have "or_else (Some s) [] = s" for s
    by (simp add: or_else_def)
  then show ?thesis
    by (simp add: fileList_def join_summary_lines)
qed

lemma summary_lines_cong: "(\<And>f. line f = line' f) \<Longrightarrow> summary_lines line files = summary_lines line' files"
  by (induction files) simp_all

lemma digit_value_digit: "d < 10 \<Longrightarrow> digit_value (digit d) = d"
proof -
  assume "d < 10"
  then consider "d = 0" | "d = 1" | "d = 2" | "d = 3" | "d = 4"
    | "d = 5" | "d = 6" | "d = 7" | "d = 8" | "d = 9"
    by atomize_elim arith
  then show ?thesis
    by cases (simp_all add: digit_def digit_value_def)
qed

lemma read_nat_snoc: "read_nat (s @ [c]) = 10 * read_nat s + digit_value c"
  by (simp add: read_nat_def)

lemma read_nat_show_nat: "read_nat (show_nat n) = n"
proof (induction n rule: show_nat.induct)
  case (1 n)
  show ?case
  proof (cases "n < 10")
    case True
    then show ?thesis
      by (simp add: show_nat.simps [of n] read_nat_def digit_value_digit)
  next
    case False
    with 1 have "read_nat (show_nat (n div 10)) = n div 10"
      by simp
    with False show ?thesis
      by (simp add: show_nat.simps [of n] read_nat_snoc digit_value_digit)
  qed
qed

lemma show_nat_values: "show_nat 1 = ''1''" "show_nat 2 = ''2''" "show_nat (Suc 0) = ''1''"
  by (simp_all add: show_nat.simps digit_def)

lemma demo_summary_lines:
  "summary_lines summary_line [sheet_file, notes_file]
     = ''Q1 budget.xlsx (application/vnd.google-apps.spreadsheet)'' @ [newline]
       @ ''budget-notes.txt (text/plain)''"
  "summary_lines summary_line [photo_file] = ''Unknown (image/jpeg)''"
  "summary_lines claimed_line [photo_file] = '' (image/jpeg)''"
  by (simp_all add: summary_line_def claimed_line_def sheet_file_def notes_file_def
      photo_file_def)

text \<open>
  Claim C6, as the code has it. When the remote directory answers a search with a list
  of files, the result has one content item, of type text, and \<open>isError\<close> false; the
  text is \<open>Found N files:\<close> and a newline, \<open>N\<close> the decimal numeral of the number of
  matches, followed by one line \<open><name> (<mimeType>)\<close> per match, in the order of the
  backend and separated by newlines, where a name that is absent or empty is printed as
  \<open>Unknown\<close> and a mimeType that is absent or empty as \<open>Unknown type\<close>.
\<close>

theorem search_summary:
  assumes "userQuery \<noteq> []"
    and "files_list d (search_params userQuery) = Inr res"
    and "lr_files res = Some files"
  shows "snd (callTool d \<lparr>tr_name = ''search'', tr_query = Some userQuery\<rparr>)
           = Returned \<lparr>content =
               [\<lparr>c_type = ''text'',
                 c_text = ''Found '' @ show_nat (length files) @ '' files:'' @ [newline]
                          @ summary_lines summary_line files\<rparr>],
               isError = False\<rparr>
         \<and> read_nat (show_nat (length files)) = length files"
proof
  from assms(1)
  have "callTool d \<lparr>tr_name = ''search'', tr_query = Some userQuery\<rparr> = search d userQuery"
    by (simp add: callTool_query)
  moreover have "fileList (Some files) = summary_lines summary_line files"
    unfolding fileList_Some by (rule summary_lines_cong) (rule file_line_summary_line)
  ultimately
  show "snd (callTool d \<lparr>tr_name = ''search'', tr_query = Some userQuery\<rparr>)
           = Returned \<lparr>content =
               [\<lparr>c_type = ''text'',
                 c_text = ''Found '' @ show_nat (length files) @ '' files:'' @ [newline]
                          @ summary_lines summary_line files\<rparr>],
               isError = False\<rparr>"
    by (simp add: search_answered [OF assms(2)] assms(3) files_length_def)
next
  show "read_nat (show_nat (length files)) = length files"
    by (rule read_nat_show_nat)
qed

theorem search_summary_witness:
  "''budget'' \<noteq> []
   \<and> files_list demo_drive (search_params ''budget'')
       = Inr \<lparr>lr_files = Some [sheet_file, notes_file], lr_nextPageToken = None\<rparr>
   \<and> snd (callTool demo_drive \<lparr>tr_name = ''search'', tr_query = Some ''budget''\<rparr>)
       = Returned \<lparr>content =
           [\<lparr>c_type = ''text'',
             c_text = ''Found 2 files:'' @ [newline]
                      @ ''Q1 budget.xlsx (application/vnd.google-apps.spreadsheet)'' @ [newline]
                      @ ''budget-notes.txt (text/plain)''\<rparr>],
           isError = False\<rparr>"
proof -
  have nonempty: "''budget'' \<noteq> []"
    by simp
  have listed: "lr_files \<lparr>lr_files = Some [sheet_file, notes_file], lr_nextPageToken = None\<rparr>
                  = Some [sheet_file, notes_file]"
    by simp
  have "snd (callTool demo_drive \<lparr>tr_name = ''search'', tr_query = Some ''budget''\<rparr>)
           = Returned \<lparr>content =
               [\<lparr>c_type = ''text'',
                 c_text = ''Found '' @ show_nat (length [sheet_file, notes_file])
                          @ '' files:'' @ [newline]
                          @ summary_lines summary_line [sheet_file, notes_file]\<rparr>],
               isError = False\<rparr>"
    using search_summary [OF nonempty demo_search_budget listed] by (rule conjunct1)
  moreover have "length [sheet_file, notes_file] = 2"
    by simp
  ultimately
  have "snd (callTool demo_drive \<lparr>tr_name = ''search'', tr_query = Some ''budget''\<rparr>)
           = Returned \<lparr>content =
               [\<lparr>c_type = ''text'',
                 c_text = ''Found '' @ ''2'' @ '' files:'' @ [newline]
                          @ (''Q1 budget.xlsx (application/vnd.google-apps.spreadsheet)''
                             @ [newline] @ ''budget-notes.txt (text/plain)'')\<rparr>],
               isError = False\<rparr>"
    by (simp only: demo_summary_lines show_nat_values)
  then have result:
    "snd (callTool demo_drive \<lparr>tr_name = ''search'', tr_query = Some ''budget''\<rparr>)
       = Returned \<lparr>content =
           [\<lparr>c_type = ''text'',
             c_text = ''Found 2 files:'' @ [newline]
                      @ ''Q1 budget.xlsx (application/vnd.google-apps.spreadsheet)'' @ [newline]
                      @ ''budget-notes.txt (text/plain)''\<rparr>],
           isError = False\<rparr>"
    by simp
  show ?thesis
    by (rule conjI [OF nonempty conjI [OF demo_search_budget result]])
qed

text \<open>
  Against claim C6 as stated: the backend returns a file whose name is present and
  empty; the summary prints \<open>Unknown\<close> for it, where the claim keeps the name as it is.
\<close>

theorem search_empty_name_counterexample:
  "files_list demo_drive (search_params ''jpeg'')
     = Inr \<lparr>lr_files = Some [photo_file], lr_nextPageToken = None\<rparr>
   \<and> f_name photo_file = Some []
   \<and> snd (callTool demo_drive \<lparr>tr_name = ''search'', tr_query = Some ''jpeg''\<rparr>)
       = Returned \<lparr>content =
           [\<lparr>c_type = ''text'',
             c_text = ''Found 1 files:'' @ [newline] @ ''Unknown (image/jpeg)''\<rparr>],
           isError = False\<rparr>
   \<and> summary claimed_line [photo_file] = ''Found 1 files:'' @ [newline] @ '' (image/jpeg)''"
proof (intro conjI)
  show "files_list demo_drive (search_params ''jpeg'')
     = Inr \<lparr>lr_files = Some [photo_file], lr_nextPageToken = None\<rparr>"
    by (rule demo_search_jpeg)
  show "f_name photo_file = Some []"
    by (simp add: photo_file_def)
  have "callTool demo_drive \<lparr>tr_name = ''search'', tr_query = Some ''jpeg''\<rparr>
          = search demo_drive ''jpeg''"
    by (simp add: callTool_query)
  then show "snd (callTool demo_drive \<lparr>tr_name = ''search'', tr_query = Some ''jpeg''\<rparr>)
       = Returned \<lparr>content =
           [\<lparr>c_type = ''text'',
             c_text = ''Found 1 files:'' @ [newline] @ ''Unknown (image/jpeg)''\<rparr>],
           isError = False\<rparr>"
    by (simp add: search_answered [OF demo_search_jpeg] files_length_def fileList_Some
        show_nat_values photo_file_def file_line_def or_else_def)
  show "summary claimed_line [photo_file] = ''Found 1 files:'' @ [newline] @ '' (image/jpeg)''"
    by (simp add: summary_def show_nat_values claimed_line_def photo_file_def)
qed


section \<open>Properties of listing resources\<close>

lemma listResources_params_cursor:
  "c \<noteq> [] \<Longrightarrow> listResources_params (Some c)
     = \<lparr>lp_pageSize = 10, lp_fields = ''nextPageToken, files(id, name, mimeType)'',
        lp_pageToken = Some c, lp_q = None\<rparr>"
  by (simp add: listResources_params_def truthy_def)

lemma listResources_params_no_cursor:
  "cursor = None \<or> cursor = Some [] \<Longrightarrow> listResources_params cursor
     = \<lparr>lp_pageSize = 10, lp_fields = ''nextPageToken, files(id, name, mimeType)'',
        lp_pageToken = None, lp_q = None\<rparr>"
  by (auto simp: listResources_params_def truthy_def)

lemma listResources_calls:
  "fst (listResources d cursor) = [FilesList (listResources_params cursor)]"
  by (simp add: listResources_def Let_def split: sum.splits)

lemma listResources_nextCursor:
  "snd (listResources d cursor) = Returned r \<Longrightarrow>
   \<exists>res. files_list d (listResources_params cursor) = Inr res
         \<and> nextCursor r = lr_nextPageToken res"
  by (auto simp: listResources_def Let_def split: sum.splits)

lemma demo_list_page2:
  "files_list demo_drive (listResources_params (Some ''page2''))
     = Inr \<lparr>lr_files = Some [sketch_file, photo_file], lr_nextPageToken = None\<rparr>"
  by (simp add: listResources_params_cursor demo_drive_fields demo_list_def)

lemma demo_list_first:
  "files_list demo_drive (listResources_params None)
     = Inr \<lparr>lr_files = Some [sheet_file, notes_file], lr_nextPageToken = Some ''page2''\<rparr>"
  by (simp add: listResources_params_no_cursor demo_drive_fields demo_list_def)

text \<open>
  Claim C7, as the code has it. For every list-resources request with a non-empty
  cursor, the cursor is the page token of the one call to the remote directory,
  unchanged; a request with no cursor, or with the empty string as cursor, sends no page
  token; and the \<open>nextCursor\<close> of a returned result is the next-page token of the
  backend's answer to that call.
\<close>

theorem list_cursor_passed:
  "(c \<noteq> [] \<longrightarrow>
      fst (listResources d (Some c))
        = [FilesList \<lparr>lp_pageSize = 10,
                      lp_fields = ''nextPageToken, files(id, name, mimeType)'',
                      lp_pageToken = Some c, lp_q = None\<rparr>])
   \<and> (cursor = None \<or> cursor = Some [] \<longrightarrow>
      fst (listResources d cursor)
        = [FilesList \<lparr>lp_pageSize = 10,
                      lp_fields = ''nextPageToken, files(id, name, mimeType)'',
                      lp_pageToken = None, lp_q = None\<rparr>])
   \<and> (\<forall>r. snd (listResources d cursor) = Returned r \<longrightarrow>
          (\<exists>res. files_list d (listResources_params cursor) = Inr res
                 \<and> nextCursor r = lr_nextPageToken res))"
proof (intro conjI allI impI)
  assume "c \<noteq> []"
  then show "fst (listResources d (Some c))
        = [FilesList \<lparr>lp_pageSize = 10,
                      lp_fields = ''nextPageToken, files(id, name, mimeType)'',
                      lp_pageToken = Some c, lp_q = None\<rparr>]"
    by (simp add: listResources_calls listResources_params_cursor)
next
  assume "cursor = None \<or> cursor = Some []"
  then show "fst (listResources d cursor)
        = [FilesList \<lparr>lp_pageSize = 10,
                      lp_fields = ''nextPageToken, files(id, name, mimeType)'',
                      lp_pageToken = None, lp_q = None\<rparr>]"
    by (simp add: listResources_calls listResources_params_no_cursor)
next
  fix r
  assume "snd (listResources d cursor) = Returned r"
  then show "\<exists>res. files_list d (listResources_params cursor) = Inr res
                 \<and> nextCursor r = lr_nextPageToken res"
    by (rule listResources_nextCursor)
qed

theorem list_cursor_passed_witness:
  "snd (listResources demo_drive None)
       = Returned \<lparr>resources = map resource_of_file [sheet_file, notes_file],
                    nextCursor = Some ''page2''\<rparr>
   \<and> ''page2'' \<noteq> []
   \<and> fst (listResources demo_drive (Some ''page2''))
       = [FilesList \<lparr>lp_pageSize = 10,
                     lp_fields = ''nextPageToken, files(id, name, mimeType)'',
                     lp_pageToken = Some ''page2'', lp_q = None\<rparr>]"
proof -
  have first: "snd (listResources demo_drive None)
       = Returned \<lparr>resources = map resource_of_file [sheet_file, notes_file],
                    nextCursor = Some ''page2''\<rparr>"
    by (simp add: listResources_def Let_def demo_list_first)
  have nonempty: "''page2'' \<noteq> []"
    by simp
  have "''page2'' \<noteq> [] \<longrightarrow>
      fst (listResources demo_drive (Some ''page2''))
        = [FilesList \<lparr>lp_pageSize = 10,
                      lp_fields = ''nextPageToken, files(id, name, mimeType)'',
                      lp_pageToken = Some ''page2'', lp_q = None\<rparr>]"
    using list_cursor_passed [of "''page2''" demo_drive None] by (rule conjunct1)
  then have second: "fst (listResources demo_drive (Some ''page2''))
        = [FilesList \<lparr>lp_pageSize = 10,
                      lp_fields = ''nextPageToken, files(id, name, mimeType)'',
                      lp_pageToken = Some ''page2'', lp_q = None\<rparr>]"
    using nonempty by (rule mp)
  show ?thesis
    by (rule conjI [OF first conjI [OF nonempty second]])
qed

text \<open>
  Against claim C7 as stated: a request that carries the empty string as its cursor
  reaches the remote directory with no page token.
\<close>

theorem list_empty_cursor_counterexample:
  "fst (listResources demo_drive (Some []))
     = [FilesList \<lparr>lp_pageSize = 10,
                   lp_fields = ''nextPageToken, files(id, name, mimeType)'',
                   lp_pageToken = None, lp_q = None\<rparr>]"
  by (simp add: listResources_calls listResources_params_def truthy_def)


section \<open>Properties of the credentials\<close>











end
